theory Spec2Isabelle
  imports Main "HOL-Library.Multiset" "HOL-Library.Product_Lexorder" "HOL-Library.Sublist"
begin

section \<open>Data model\<close>

text \<open>
  The two managers (\<^verbatim>\<open>VerificationManager\<close> in \<^verbatim>\<open>vcmanager.py\<close>,
  \<^verbatim>\<open>EntryManager\<close> in \<^verbatim>\<open>entry_manager.py\<close>) keep two pandas tables. A table is
  modelled as the list of its rows in positional order, each row paired with its index
  label: \<^verbatim>\<open>df.index\<close> is the list of first components, \<^verbatim>\<open>df.iloc[i]\<close> reads by
  position, \<^verbatim>\<open>df.loc[l]\<close> reads by label.
\<close>

datatype py_error =
  IndexError | KeyError | ValueError | TypeError | AttributeError | UnknownBoardError | DecodeError

record raw_row =
  Match :: int
  Team :: int
  Name :: string
  StartTime :: string
  Board :: string
  Data :: string
  Comments :: string

text \<open>\<^verbatim>\<open>RawIndex\<close> is a nullable column: \<open>None\<close> is pandas' NaN.\<close>

record edited_row = raw_row +
  RawIndex :: "int option"
  Edited :: string

type_synonym 'r frame = "(int \<times> 'r) list"

definition index :: "'r frame \<Rightarrow> int list" where
  "index df = map fst df"

definition rows :: "'r frame \<Rightarrow> 'r list" where
  "rows df = map snd df"

text \<open>The index of a freshly built table (\<^verbatim>\<open>pd.DataFrame(list)\<close>,
  \<^verbatim>\<open>ignore_index=True\<close>): the labels are the positions.\<close>

definition range_index :: "'r list \<Rightarrow> 'r frame" where
  "range_index rs = zip (map int [0..<length rs]) rs"

definition dropna :: "'a option list \<Rightarrow> 'a list" where
  "dropna xs = concat (map (\<lambda>x. case x of None \<Rightarrow> [] | Some v \<Rightarrow> [v]) xs)"

section \<open>Reconciliation: merge\<close>

text \<open>
  \<^verbatim>\<open>VerificationManager.merge\<close> (and the same statements in \<^verbatim>\<open>EntryManager.__init__\<close>):
  \<^verbatim>\<open>
    condition = ~self.raw_entries.index.isin(self.edited_entries["RawIndex"].dropna())
    new_data = self.raw_entries[condition].reset_index()
    new_data.rename(columns={"index": "RawIndex"}, inplace=True)
    new_data["Edited"] = " "
    self.edited_entries = pd.concat([self.edited_entries, new_data], ignore_index=True)
  \<close>
\<close>

definition raw_referenced :: "edited_row frame \<Rightarrow> int list" where
  "raw_referenced edited_entries = dropna (map RawIndex (rows edited_entries))"

definition condition :: "raw_row frame \<Rightarrow> edited_row frame \<Rightarrow> (int \<times> raw_row) \<Rightarrow> bool" where
  "condition raw_entries edited_entries = (\<lambda>(i, r). i \<notin> set (raw_referenced edited_entries))"

definition from_raw :: "int \<times> raw_row \<Rightarrow> edited_row" where
  "from_raw = (\<lambda>(i, r). raw_row.extend r (edited_row.fields (Some i) '' ''))"

definition new_data :: "raw_row frame \<Rightarrow> edited_row frame \<Rightarrow> edited_row list" where
  "new_data raw_entries edited_entries =
     map from_raw (filter (condition raw_entries edited_entries) raw_entries)"

definition merge :: "raw_row frame \<Rightarrow> edited_row frame \<Rightarrow> edited_row frame" where
  "merge raw_entries edited_entries =
     range_index (rows edited_entries @ new_data raw_entries edited_entries)"

section \<open>Exceptions\<close>

text \<open>
  A call that may raise returns \<open>Inl\<close> of the error; \<open>bind_result\<close> is the sequencing
  of two statements, the second one skipped when the first raises.
\<close>

definition bind_result :: "py_error + 'a \<Rightarrow> ('a \<Rightarrow> py_error + 'c) \<Rightarrow> py_error + 'c" where
  "bind_result m f = (case m of Inl e \<Rightarrow> Inl e | Inr x \<Rightarrow> f x)"

section \<open>Python values and strings\<close>

text \<open>
  Keyword arguments are dynamically typed: a supplied value is an integer or a string.
  \<^verbatim>\<open>str(v)\<close> is the decimal form of an integer and the string itself.
\<close>

datatype pyval = PInt int | PStr string

definition digit_char :: "nat \<Rightarrow> char" where
  "digit_char n = ''0123456789'' ! n"

fun digits :: "nat \<Rightarrow> string" where
  "digits n = (if n < 10 then [digit_char n] else digits (n div 10) @ [digit_char (n mod 10)])"

declare digits.simps [simp del]

definition str_int :: "int \<Rightarrow> string" where
  "str_int i = (if i < 0 then CHR ''-'' # digits (nat (- i)) else digits (nat i))"

fun py_str :: "pyval \<Rightarrow> string" where
  "py_str (PInt i) = str_int i"
| "py_str (PStr s) = s"

text \<open>\<^verbatim>\<open>str.lower\<close>, \<^verbatim>\<open>str.upper\<close> and \<^verbatim>\<open>str.capitalize\<close> on the ASCII letters.\<close>

definition lower_char :: "char \<Rightarrow> char" where
  "lower_char c =
     (case map_of (zip ''ABCDEFGHIJKLMNOPQRSTUVWXYZ'' ''abcdefghijklmnopqrstuvwxyz'') c of
        None \<Rightarrow> c | Some d \<Rightarrow> d)"

definition upper_char :: "char \<Rightarrow> char" where
  "upper_char c =
     (case map_of (zip ''abcdefghijklmnopqrstuvwxyz'' ''ABCDEFGHIJKLMNOPQRSTUVWXYZ'') c of
        None \<Rightarrow> c | Some d \<Rightarrow> d)"

definition lower :: "string \<Rightarrow> string" where
  "lower s = map lower_char s"

fun capitalize :: "string \<Rightarrow> string" where
  "capitalize [] = []"
| "capitalize (c # cs) = upper_char c # map lower_char cs"

text \<open>\<^verbatim>\<open>s.split(sep)\<close> for a one-character separator: \<^verbatim>\<open>"".split("_") == [""]\<close>.\<close>

fun py_split :: "char \<Rightarrow> string \<Rightarrow> string list" where
  "py_split sep [] = [[]]"
| "py_split sep (c # cs) =
     (if c = sep then [] # py_split sep cs
      else (case py_split sep cs of [] \<Rightarrow> [[c]] | w # ws \<Rightarrow> (c # w) # ws))"

text \<open>\<^verbatim>\<open>xs[i]\<close> for a non-negative constant \<open>i\<close>; out of range raises.\<close>

definition item :: "'a list \<Rightarrow> nat \<Rightarrow> py_error + 'a" where
  "item xs i = (if i < length xs then Inr (xs ! i) else Inl IndexError)"

text \<open>
  \<^verbatim>\<open>int(s)\<close> and \<^verbatim>\<open>int(s, 16)\<close> on the digit strings the import grammar admits
  (decimal digits, lower-case hexadecimal digits). Any other string is reported as
  \<open>ValueError\<close>; the converter is only applied to fields that passed the grammar.
  Digits are the ASCII digits: the pattern's \<^verbatim>\<open>\d\<close> and \<^verbatim>\<open>int\<close> also accept the other
  Unicode decimal digits, and \<^verbatim>\<open>str.lower\<close> also changes letters outside ASCII; lines
  and names with such characters are outside this model.
\<close>

definition hex_value :: "char \<Rightarrow> nat option" where
  "hex_value c = map_of (zip ''0123456789abcdef'' [0, 1, 2, 3, 4, 5, 6, 7, 8, 9, 10, 11, 12, 13, 14, 15]) c"

definition is_digit :: "char \<Rightarrow> bool" where
  "is_digit c = (c \<in> set ''0123456789'')"

definition is_hex :: "char \<Rightarrow> bool" where
  "is_hex c = (c \<in> set ''0123456789abcdef'')"

definition int_of :: "nat \<Rightarrow> string \<Rightarrow> py_error + int" where
  "int_of base s =
     (if s \<noteq> [] \<and> list_all (\<lambda>c. case hex_value c of None \<Rightarrow> False | Some d \<Rightarrow> d < base) s
      then Inr (int (foldl (\<lambda>acc c. acc * base + the (hex_value c)) 0 s))
      else Inl ValueError)"

section \<open>External collaborators\<close>

text \<open>
  The board registry (\<^verbatim>\<open>boards.Finder\<close>), the decoder, \<^verbatim>\<open>entrylib.Entry\<close> and
  \<^verbatim>\<open>format_time.display_time\<close> are not part of the sources; the operations take them as
  a parameter. \<open>'b\<close> is a board, \<open>'v\<close> a decoded field value, \<open>'e\<close> an
  \<^verbatim>\<open>entrylib.Entry\<close>; each call may raise. \<open>Entry\<close> reads the columns that raw and
  edited rows share. \<open>now\<close> is \<^verbatim>\<open>format_time.display_time(time.time())\<close>.
\<close>

record ('b, 'v, 'e) collaborators =
  get_board_by_name :: "string \<Rightarrow> py_error + 'b"
  get_board_by_id :: "int \<Rightarrow> py_error + 'b"
  get_first :: "py_error + 'b"
  board_name :: "'b \<Rightarrow> string"
  decode :: "string \<Rightarrow> 'b \<Rightarrow> py_error + 'v list"
  Entry :: "raw_row \<Rightarrow> py_error + 'e"
  display_time :: "int \<Rightarrow> string"
  now :: string

section \<open>Raw importer\<close>

text \<open>
  \<^verbatim>\<open>read_one\<close> yields, for each line, \<^verbatim>\<open>"".join(entry.split(",")[:-1])\<close>.
\<close>

definition read_one :: "string list \<Rightarrow> string list" where
  "read_one entries = map (\<lambda>entry. concat (butlast (py_split CHR '','' entry))) entries"

text \<open>
  The compiled pattern
  \<^verbatim>\<open>\d{1,3}_\d{1,4}_[^_]+_[0-9a-f]{8}_[0-9a-f]{8}_([0-9a-f]{4})*_.*\<close>, applied with
  \<^verbatim>\<open>match\<close> (anchored at the start only). No group before the last one can contain an
  underscore, so the pattern matches exactly when the string has at least six
  underscores and the six fields before them have the shapes below.
\<close>

definition matcher :: "string \<Rightarrow> bool" where
  "matcher entry =
     (case py_split CHR ''_'' entry of
        m # t # n # st # b # d # c # rest \<Rightarrow>
          1 \<le> length m \<and> length m \<le> 3 \<and> list_all is_digit m \<and>
          1 \<le> length t \<and> length t \<le> 4 \<and> list_all is_digit t \<and>
          n \<noteq> [] \<and>
          length st = 8 \<and> list_all is_hex st \<and>
          length b = 8 \<and> list_all is_hex b \<and>
          length d mod 4 = 0 \<and> list_all is_hex d
      | _ \<Rightarrow> False)"

text \<open>\<^verbatim>\<open>read_all\<close>: the matching entries, each once, in first-seen order.\<close>

fun unique_entries :: "string list \<Rightarrow> string list \<Rightarrow> string list" where
  "unique_entries acc [] = acc"
| "unique_entries acc (entry # entries) =
     unique_entries (if matcher entry \<and> entry \<notin> set acc then acc @ [entry] else acc) entries"

definition read_all :: "string list \<Rightarrow> string list" where
  "read_all entries = unique_entries [] (read_one entries)"

definition make_columns :: "('b, 'v, 'e) collaborators \<Rightarrow> string \<Rightarrow> py_error + raw_row" where
  "make_columns env entry =
     (let split = py_split CHR ''_'' entry in
      bind_result (item split 0) (\<lambda>s0.
      bind_result (int_of 10 s0) (\<lambda>match.
      bind_result (item split 1) (\<lambda>s1.
      bind_result (int_of 10 s1) (\<lambda>team.
      bind_result (item split 2) (\<lambda>name.
      bind_result (item split 3) (\<lambda>s3.
      bind_result (int_of 16 s3) (\<lambda>start.
      bind_result (item split 4) (\<lambda>s4.
      bind_result (int_of 16 s4) (\<lambda>board_id.
      bind_result (get_board_by_id env board_id) (\<lambda>board.
      bind_result (item split 5) (\<lambda>data.
      bind_result (item split 6) (\<lambda>comments.
        Inr \<lparr>Match = match, Team = team, Name = name,
             StartTime = display_time env start, Board = board_name env board,
             Data = data, Comments = comments\<rparr>)))))))))))))"

section \<open>Query layer: search\<close>

definition FILTER_HEADER :: "string list" where
  "FILTER_HEADER = [''Match'', ''Team'', ''Name'', ''Board'', ''Edited'']"

text \<open>
  The keyword arguments, in call order. The cleaning step is
  \<^verbatim>\<open>{k.capitalize(): kwargs[k] for k in kwargs.keys() if kwargs[k]}\<close>: entries with
  an empty list are left out, and of two keys with the same capitalised form the later
  one stays.
\<close>

type_synonym kwargs = "(string \<times> pyval list) list"

definition search_rules :: "kwargs \<Rightarrow> (string \<rightharpoonup> pyval list)" where
  "search_rules kwargs =
     map_of (rev (map (\<lambda>(k, v). (capitalize k, v)) (filter (\<lambda>(k, v). v \<noteq> []) kwargs)))"

text \<open>
  The loops over \<^verbatim>\<open>self.edited_entries[col].unique()\<close>. The resulting Python set is
  only used for membership, so a list stands for it.
\<close>

definition possible_numbers :: "pyval list \<Rightarrow> int list \<Rightarrow> int list" where
  "possible_numbers wanted available =
     filter (\<lambda>a. \<exists>w \<in> set wanted. prefix (py_str w) (str_int a)) available"

text \<open>\<^verbatim>\<open>name.lower()\<close> raises on a value that is not a string.\<close>

fun py_lower :: "pyval \<Rightarrow> py_error + string" where
  "py_lower (PStr s) = Inr (lower s)"
| "py_lower (PInt i) = Inl AttributeError"

fun name_matches :: "pyval list \<Rightarrow> string \<Rightarrow> py_error + bool" where
  "name_matches [] available_name = Inr False"
| "name_matches (name # names) available_name =
     bind_result (py_lower name) (\<lambda>l.
     bind_result (name_matches names available_name) (\<lambda>found.
       Inr (sublist l (lower available_name) \<or> found)))"

fun possible_names :: "pyval list \<Rightarrow> string list \<Rightarrow> py_error + string list" where
  "possible_names names [] = Inr []"
| "possible_names names (available_name # available) =
     bind_result (name_matches names available_name) (\<lambda>found.
     bind_result (possible_names names available) (\<lambda>rest.
       Inr (if found then available_name # rest else rest)))"

definition sort_values :: "edited_row frame \<Rightarrow> edited_row frame" where
  "sort_values df = sort_key (\<lambda>(i, r). (Match r, Team r)) df"

text \<open>
  \<^verbatim>\<open>VerificationManager.search\<close>. The final loop filters the table once for every
  cleaned key that is in \<open>FILTER_HEADER\<close>; the Match, Team and Name rules have been
  replaced by the possible values computed from the table, the Board and Edited rules
  are the supplied lists.
\<close>

definition search :: "edited_row frame \<Rightarrow> kwargs \<Rightarrow> py_error + edited_row frame" where
  "search edited_entries kwargs =
     (let rules = search_rules kwargs;
          match_rule = map_option (\<lambda>matches. possible_numbers matches (remdups (map Match (rows edited_entries))))
                         (rules ''Match'');
          team_rule = map_option (\<lambda>teams. possible_numbers teams (remdups (map Team (rows edited_entries))))
                         (rules ''Team'')
      in bind_result
           (case rules ''Name'' of
              None \<Rightarrow> Inr None
            | Some names \<Rightarrow>
                bind_result (possible_names names (remdups (map Name (rows edited_entries))))
                  (\<lambda>ps. Inr (Some ps)))
           (\<lambda>name_rule.
              Inr (sort_values (filter (\<lambda>(i, r).
                     (case match_rule of None \<Rightarrow> True | Some ms \<Rightarrow> Match r \<in> set ms) \<and>
                     (case team_rule of None \<Rightarrow> True | Some ts \<Rightarrow> Team r \<in> set ts) \<and>
                     (case name_rule of None \<Rightarrow> True | Some ns \<Rightarrow> Name r \<in> set ns) \<and>
                     (case rules ''Board'' of None \<Rightarrow> True | Some bs \<Rightarrow> PStr (Board r) \<in> set bs) \<and>
                     (case rules ''Edited'' of None \<Rightarrow> True | Some es \<Rightarrow> PStr (Edited r) \<in> set es))
                   edited_entries))))"

text \<open>
  The claim's wording of relaxed matching, for one cleaned field name, its supplied
  values and one row; it is compared with \<open>search\<close> below.
\<close>

definition relaxed_match :: "string \<Rightarrow> pyval list \<Rightarrow> edited_row \<Rightarrow> bool" where
  "relaxed_match field vs r =
     (if field = ''Match'' then \<exists>v \<in> set vs. prefix (py_str v) (str_int (Match r))
      else if field = ''Team'' then \<exists>v \<in> set vs. prefix (py_str v) (str_int (Team r))
      else if field = ''Name'' then \<exists>v \<in> set vs. sublist (lower (py_str v)) (lower (Name r))
      else if field = ''Board'' then PStr (Board r) \<in> set vs
      else if field = ''Edited'' then PStr (Edited r) \<in> set vs
      else True)"

text \<open>All cleaned rules hold of a row, each in the claim's wording.\<close>

definition rules_hold :: "(string \<rightharpoonup> pyval list) \<Rightarrow> edited_row \<Rightarrow> bool" where
  "rules_hold rules r = (\<forall>F vs. rules F = Some vs \<longrightarrow> relaxed_match F vs r)"

fun is_string :: "pyval \<Rightarrow> bool" where
  "is_string (PStr s) = True"
| "is_string (PInt i) = False"

section \<open>Query layer: lookup and navigation (EntryManager)\<close>

text \<open>\<^verbatim>\<open>df.iloc[i]\<close>: by position, negative positions count from the end.\<close>

definition iloc :: "'r frame \<Rightarrow> int \<Rightarrow> py_error + 'r" where
  "iloc df i =
     (let n = int (length df); j = (if i < 0 then n + i else i)
      in if 0 \<le> j \<and> j < n then Inr (snd (df ! nat j)) else Inl IndexError)"

text \<open>\<^verbatim>\<open>df.loc[l, col]\<close>: by label; a missing label raises \<open>KeyError\<close>.\<close>

definition loc :: "'r frame \<Rightarrow> int \<Rightarrow> py_error + 'r" where
  "loc df l = (case map_of df l of None \<Rightarrow> Inl KeyError | Some r \<Rightarrow> Inr r)"

definition data_row_at :: "edited_row frame \<Rightarrow> int \<Rightarrow> py_error + edited_row option" where
  "data_row_at edited_data idx =
     (if idx \<in> set (index edited_data)
      then bind_result (iloc edited_data idx) (\<lambda>row. Inr (Some row))
      else Inr None)"

record 'v entry_info =
  info_Match :: int
  info_Team :: int
  info_Name :: string
  info_StartTime :: string
  info_Comments :: string
  info_Board :: string
  info_Data :: "'v list"

text \<open>The result of \<^verbatim>\<open>entry_at\<close>: the empty dict or the entry info.\<close>

datatype 'v entry_result = EmptyDict | EntryInfo "'v entry_info"

definition entry_at ::
  "('b, 'v, 'e) collaborators \<Rightarrow> edited_row frame \<Rightarrow> int \<Rightarrow> py_error + 'v entry_result" where
  "entry_at env edited_data idx =
     bind_result (data_row_at edited_data idx) (\<lambda>row_opt.
       case row_opt of
         None \<Rightarrow> Inr EmptyDict
       | Some row \<Rightarrow>
           bind_result (get_board_by_name env (Board row)) (\<lambda>entry_board.
           bind_result (decode env (Data row) entry_board) (\<lambda>decoded.
             Inr (EntryInfo \<lparr>info_Match = Match row, info_Team = Team row,
                    info_Name = Name row, info_StartTime = StartTime row,
                    info_Comments = Comments row,
                    info_Board = board_name env entry_board,
                    info_Data = decoded\<rparr>))))"

text \<open>\<^verbatim>\<open>list.index\<close>: the position of the first occurrence.\<close>

definition position_of :: "'a list \<Rightarrow> 'a \<Rightarrow> nat" where
  "position_of xs x = length (takeWhile (\<lambda>y. y \<noteq> x) xs)"

text \<open>
  A filtered table is the result of \<^verbatim>\<open>filter\<close>: its \<^verbatim>\<open>"index"\<close> column holds the
  labels of the kept rows; it is the first component here.
\<close>

definition get_relative_entry ::
  "('b, 'v, 'e) collaborators \<Rightarrow> edited_row frame \<Rightarrow> (int \<times> 'a) list \<Rightarrow> int \<Rightarrow> int
     \<Rightarrow> py_error + 'v entry_result" where
  "get_relative_entry env edited_data filtered_table current_index increment_by =
     (let indices = map fst filtered_table in
      if length indices \<noteq> 0 then
        if current_index \<in> set indices then
          entry_at env edited_data
            (indices ! nat ((int (position_of indices current_index) + increment_by)
                              mod int (length indices)))
        else entry_at env edited_data (indices ! 0)
      else Inr EmptyDict)"

definition next_entry ::
  "('b, 'v, 'e) collaborators \<Rightarrow> edited_row frame \<Rightarrow> (int \<times> 'a) list \<Rightarrow> int
     \<Rightarrow> py_error + 'v entry_result" where
  "next_entry env edited_data filtered_table current_index =
     get_relative_entry env edited_data filtered_table current_index 1"

definition previous_entry ::
  "('b, 'v, 'e) collaborators \<Rightarrow> edited_row frame \<Rightarrow> (int \<times> 'a) list \<Rightarrow> int
     \<Rightarrow> py_error + 'v entry_result" where
  "previous_entry env edited_data filtered_table current_index =
     get_relative_entry env edited_data filtered_table current_index (- 1)"

definition get_matching_row :: "edited_row frame \<Rightarrow> int \<Rightarrow> int \<Rightarrow> string \<Rightarrow> edited_row frame" where
  "get_matching_row edited_data match team name =
     filter (\<lambda>(i, r). Match r = match \<and> Team r = team \<and> Name r = name) edited_data"

text \<open>
  \<^verbatim>\<open>EntryManager.add_entry\<close>: \<open>None\<close> is Python's \<^verbatim>\<open>None\<close>. The method assigns
  nothing to \<^verbatim>\<open>self.edited_data\<close>.
\<close>

definition add_entry ::
  "('b, 'v, 'e) collaborators \<Rightarrow> edited_row frame \<Rightarrow> int \<Rightarrow> int \<Rightarrow> string
     \<Rightarrow> py_error + 'v entry_result option" where
  "add_entry env edited_data match team name =
     (let matching_row = get_matching_row edited_data match team name in
      if matching_row = [] then Inr None
      else bind_result (item (index matching_row) 0) (\<lambda>idx.
           bind_result (entry_at env edited_data idx) (\<lambda>info. Inr (Some info))))"

text \<open>
  \<^verbatim>\<open>EntryManager.remove_entry\<close>: the supplied values are compared with the string
  forms of the row's fields; \<^verbatim>\<open>==\<close> between a string and an integer is false. The
  result is what was raised, if anything, and the table afterwards. The index labels
  of a table are unique in every table that the code builds, loads or saves, and
  \<open>loc\<close> reads the one row with the label.
\<close>

definition drop_label :: "'r frame \<Rightarrow> int \<Rightarrow> 'r frame" where
  "drop_label df l = filter (\<lambda>(i, r). i \<noteq> l) df"

definition remove_entry ::
  "edited_row frame \<Rightarrow> pyval \<Rightarrow> pyval \<Rightarrow> pyval \<Rightarrow> int \<Rightarrow> (py_error + unit) \<times> edited_row frame" where
  "remove_entry edited_data match team name index_value =
     (case loc edited_data index_value of
        Inl e \<Rightarrow> (Inl e, edited_data)
      | Inr row \<Rightarrow>
          (let match_at_index = str_int (Match row);
               team_at_index = str_int (Team row);
               name_at_index = Name row;
               match_correct = (PStr match_at_index = match);
               team_correct = (PStr team_at_index = team);
               name_correct = (PStr name_at_index = name)
           in if match_correct \<and> team_correct \<and> name_correct
              then (Inr (), drop_label edited_data index_value)
              else (Inr (), edited_data)))"

section \<open>Query layer: lookup and append (VerificationManager)\<close>

text \<open>
  A column that holds NaN is a float column in pandas: once some row of the edited table
  has no raw index, every \<^verbatim>\<open>row["RawIndex"]\<close> is a float.
\<close>

definition float_raw_index :: "edited_row frame \<Rightarrow> bool" where
  "float_raw_index edited_entries = (None \<in> set (map RawIndex (rows edited_entries)))"

text \<open>
  \<^verbatim>\<open>VerificationManager.__getitem__\<close> returns the raw entry (or \<^verbatim>\<open>None\<close>), the edited
  entry and the last edit time, and raises \<open>IndexError\<close> for an index that is not in
  the table. The membership test \<^verbatim>\<open>row["RawIndex"] in self.raw_entries.index\<close> accepts a
  float with an integer value and is false for NaN; \<^verbatim>\<open>iloc\<close> refuses a float position
  with \<open>TypeError\<close>.
\<close>

definition getitem ::
  "('b, 'v, 'e) collaborators \<Rightarrow> raw_row frame \<Rightarrow> edited_row frame \<Rightarrow> int
     \<Rightarrow> py_error + ('e option \<times> 'e \<times> string)" where
  "getitem env raw_entries edited_entries idx =
     (if idx \<in> set (index edited_entries) then
        bind_result (iloc edited_entries idx) (\<lambda>row.
        bind_result
          (case RawIndex row of
             None \<Rightarrow> Inr None
           | Some ri \<Rightarrow>
               if ri \<in> set (index raw_entries)
               then bind_result
                      (if float_raw_index edited_entries then Inl TypeError
                       else iloc raw_entries ri)
                      (\<lambda>raw_row.
                    bind_result (Entry env raw_row) (\<lambda>raw. Inr (Some raw)))
               else Inr None)
          (\<lambda>raw.
        bind_result (Entry env (raw_row.truncate row)) (\<lambda>edited.
          Inr (raw, edited, Edited row))))
      else Inl IndexError)"

definition match_row :: "edited_row frame \<Rightarrow> int \<Rightarrow> int \<Rightarrow> string \<Rightarrow> edited_row frame" where
  "match_row edited_entries match team name =
     filter (\<lambda>(i, r). Match r = match \<and> Team r = team \<and> Name r = name) edited_entries"

definition appended_row :: "('b, 'v, 'e) collaborators \<Rightarrow> 'b \<Rightarrow> int \<Rightarrow> int \<Rightarrow> string \<Rightarrow> edited_row" where
  "appended_row env first_board match team name =
     \<lparr>Match = match, Team = team, Name = name, StartTime = now env,
      Board = board_name env first_board, Data = [], Comments = [],
      RawIndex = None, Edited = []\<rparr>"

text \<open>
  \<^verbatim>\<open>VerificationManager.append\<close> (\<open>append\<close> is the list operation in HOL, hence
  the longer name): the result is what the call returns or raises, and the edited table
  afterwards.
\<close>

definition append_entry ::
  "('b, 'v, 'e) collaborators \<Rightarrow> raw_row frame \<Rightarrow> edited_row frame \<Rightarrow> int \<Rightarrow> int \<Rightarrow> string
     \<Rightarrow> (py_error + ('e option \<times> 'e \<times> string)) \<times> edited_row frame" where
  "append_entry env raw_entries edited_entries match team name =
     (let matching_row = match_row edited_entries match team name in
      if matching_row = [] then
        (case get_first env of
           Inl e \<Rightarrow> (Inl e, edited_entries)
         | Inr first_board \<Rightarrow>
             (let edited_entries' =
                    range_index (rows edited_entries @ [appended_row env first_board match team name])
              in (bind_result (item (index (match_row edited_entries' match team name)) 0)
                    (getitem env raw_entries edited_entries'),
                  edited_entries')))
      else (bind_result (item (index matching_row) 0) (getitem env raw_entries edited_entries),
            edited_entries))"

section \<open>Example data\<close>

definition sam :: raw_row where
  "sam = \<lparr>Match = 5, Team = 200, Name = ''Sam'', StartTime = ''30'', Board = ''Comp'',
          Data = ''00ff'', Comments = ''hello''\<rparr>"

definition ann :: raw_row where
  "ann = \<lparr>Match = 6, Team = 865, Name = ''Ann'', StartTime = ''31'', Board = ''Comp'',
          Data = [], Comments = []\<rparr>"

definition team_row :: "int \<Rightarrow> edited_row" where
  "team_row t = \<lparr>Match = 1, Team = t, Name = ''Sam'', StartTime = ''30'', Board = ''Comp'',
          Data = [], Comments = [], RawIndex = None, Edited = []\<rparr>"

text \<open>A registry with the single board \<open>Comp\<close> (id 1), a decoder that yields no
  fields, and the identity for \<open>Entry\<close>.\<close>

definition example_env :: "(string, nat, raw_row) collaborators" where
  "example_env =
     \<lparr>get_board_by_name = (\<lambda>n. if n = ''Comp'' then Inr ''Comp'' else Inl UnknownBoardError),
      get_board_by_id = (\<lambda>i. if i = 1 then Inr ''Comp'' else Inl UnknownBoardError),
      get_first = Inr ''Comp'',
      board_name = (\<lambda>b. b),
      decode = (\<lambda>d b. Inr []),
      Entry = Inr,
      display_time = str_int,
      now = ''now''\<rparr>"

text \<open>Four rows with the teams 120, 2001, 200 and 20.\<close>

definition team_table :: "edited_row frame" where
  "team_table = [(0, team_row 120), (1, team_row 2001), (2, team_row 200), (3, team_row 20)]"

text \<open>The edited row that merge makes of \<open>sam\<close>, a table of thirteen rows whose
  teams are 100 to 112, and a filtered view with the identities 10, 11 and 12.\<close>

definition sam_edited :: edited_row where
  "sam_edited = from_raw (0, sam)"

definition nav_table :: "edited_row frame" where
  "nav_table =
     range_index (map team_row [100, 101, 102, 103, 104, 105, 106, 107, 108, 109, 110, 111, 112])"

definition nav_view :: "(int \<times> unit) list" where
  "nav_view = [(10, ()), (11, ()), (12, ())]"

text \<open>Four rows with the teams 100 to 103 and the labels 0 to 3; the table that is
  left when the row with label 0 is dropped, and the view of all its rows.\<close>

definition four_rows :: "edited_row frame" where
  "four_rows = range_index (map team_row [100, 101, 102, 103])"

definition gap_table :: "edited_row frame" where
  "gap_table = [(1, team_row 101), (2, team_row 102), (3, team_row 103)]"

definition gap_view :: "(int \<times> unit) list" where
  "gap_view = [(1, ()), (2, ()), (3, ())]"

section \<open>Facts about tables\<close>

lemma rows_range_index: "rows (range_index rs) = rs"
  by (simp add: rows_def range_index_def)

lemma index_range_index: "index (range_index rs) = map int [0..<length rs]"
  by (simp add: index_def range_index_def)

lemma length_range_index: "length (range_index rs) = length rs"
  by (simp add: range_index_def)

lemma range_index_rows:
  "index df = map int [0..<length df] \<Longrightarrow> range_index (rows df) = df"
proof -
  assume labels: "index df = map int [0..<length df]"
  have "zip (index df) (rows df) = df"
    by (simp add: index_def rows_def zip_map_fst_snd)
  with labels show ?thesis
    by (simp add: range_index_def rows_def)
qed

lemma range_index_append_take:
  "take (length rs) (range_index (rs @ ns)) = range_index rs"
  by (simp add: range_index_def take_zip take_map)

lemma dropna_append: "dropna (xs @ ys) = dropna xs @ dropna ys"
  by (simp add: dropna_def)

lemma set_dropna: "set (dropna xs) = {v. Some v \<in> set xs}"
  by (induction xs) (auto simp: dropna_def split: option.splits)

lemma RawIndex_from_raw: "RawIndex (from_raw (i, r)) = Some i"
  by (simp add: from_raw_def raw_row.defs edited_row.defs)

lemma rows_merge:
  "rows (merge raw_entries edited_entries) = rows edited_entries @ new_data raw_entries edited_entries"
  by (simp add: merge_def rows_range_index)

lemma raw_referenced_merge:
  "set (raw_referenced (merge raw_entries edited_entries)) =
     set (raw_referenced edited_entries) \<union>
     {i. i \<in> set (index raw_entries) \<and> i \<notin> set (raw_referenced edited_entries)}"
proof -
  have "set (dropna (map RawIndex (new_data raw_entries edited_entries))) =
        {i. i \<in> set (index raw_entries) \<and> i \<notin> set (raw_referenced edited_entries)}"
    by (force simp: set_dropna new_data_def condition_def index_def RawIndex_from_raw image_iff)
  then show ?thesis
    by (simp add: raw_referenced_def rows_merge dropna_append)
qed

lemma new_data_merge: "new_data raw_entries (merge raw_entries edited_entries) = []"
proof -
  have "\<forall>x \<in> set raw_entries. \<not> condition raw_entries (merge raw_entries edited_entries) x"
    by (auto simp: condition_def raw_referenced_merge index_def intro: rev_image_eqI)
  then show ?thesis
    by (simp add: new_data_def)
qed

lemma count_label:
  "distinct (map fst xs) \<Longrightarrow> i \<in> fst ` set xs \<Longrightarrow> length (filter (\<lambda>x. fst x = i) xs) = 1"
proof (induction xs)
  case Nil then show ?case by simp
next
  case (Cons x xs)
  show ?case
  proof (cases "fst x = i")
    case True
    with Cons.prems have "filter (\<lambda>x. fst x = i) xs = []"
      by (auto simp: filter_empty_conv image_iff)
    with True show ?thesis by simp
  next
    case False
    with Cons show ?thesis by auto
  qed
qed

lemma filter_new_data:
  "filter (\<lambda>r. RawIndex r = Some i) (new_data raw_entries edited_entries) =
     map from_raw (filter (\<lambda>x. fst x = i \<and> i \<notin> set (raw_referenced edited_entries)) raw_entries)"
  by (induction raw_entries) (auto simp: new_data_def condition_def RawIndex_from_raw)

lemma referenced_iff:
  "i \<in> set (raw_referenced edited_entries) \<longleftrightarrow>
     filter (\<lambda>r. RawIndex r = Some i) (rows edited_entries) \<noteq> []"
  by (force simp: raw_referenced_def set_dropna filter_empty_conv image_iff)

section \<open>Claims about merge\<close>

text \<open>
  C1. Merge is idempotent: for every raw table and every edited table, merging the same
  raw table a second time adds no row and leaves the edited table equal to the result of
  the first merge.
\<close>

theorem merge_idempotent:
  "merge raw_entries (merge raw_entries edited_entries) = merge raw_entries edited_entries
   \<and> length (merge raw_entries (merge raw_entries edited_entries))
       = length (merge raw_entries edited_entries)"
  by (simp add: merge_def [of raw_entries "merge raw_entries edited_entries"]
      new_data_merge rows_merge) (simp add: merge_def)

text \<open>
  C2. Merge preserves the rows that were there: the rows of the merged table are the
  old rows, in their old positions and with their old field values, followed by the new
  rows, so merge only appends. The index of the merged table is the row position
  (\<^verbatim>\<open>ignore_index=True\<close>); an edited table whose index already was the row position, as
  every table that merge or append produced, is literally the beginning of the merged
  table, labels included.
\<close>

theorem merge_preserves_rows:
  "rows (merge raw_entries edited_entries) = rows edited_entries @ new_data raw_entries edited_entries
   \<and> index (merge raw_entries edited_entries) = map int [0..<length (merge raw_entries edited_entries)]
   \<and> (index edited_entries = map int [0..<length edited_entries] \<longrightarrow>
        take (length edited_entries) (merge raw_entries edited_entries) = edited_entries)"
proof -
  have "take (length (rows edited_entries)) (merge raw_entries edited_entries)
          = range_index (rows edited_entries)"
    unfolding merge_def by (rule range_index_append_take)
  moreover have "length (rows edited_entries) = length edited_entries"
    by (simp add: rows_def)
  ultimately have "index edited_entries = map int [0..<length edited_entries] \<Longrightarrow>
        take (length edited_entries) (merge raw_entries edited_entries) = edited_entries"
    using range_index_rows [of edited_entries] by simp
  then show ?thesis
    by (simp add: rows_merge) (simp add: merge_def index_range_index length_range_index)
qed

theorem merge_preserves_rows_witness:
  "index [(0, from_raw (1, ann))] = map int [0..<length [(0::int, from_raw (1, ann))]]
   \<and> take (length [(0::int, from_raw (1, ann))])
        (merge [(0, sam), (1, ann)] [(0, from_raw (1, ann))]) = [(0, from_raw (1, ann))]
   \<and> rows (merge [(0, sam), (1, ann)] [(0, from_raw (1, ann))])
        = [from_raw (1, ann), from_raw (0, sam)]"
proof -
  have "new_data [(0, sam), (1, ann)] [(0, from_raw (1, ann))] = [from_raw (0, sam)]"
    by (simp add: new_data_def condition_def raw_referenced_def rows_def dropna_def
        RawIndex_from_raw)
  then show ?thesis
    using merge_preserves_rows [of "[(0, sam), (1, ann)]" "[(0, from_raw (1, ann))]"]
    by (simp add: index_def rows_def)
qed

text \<open>
  C3. Merge establishes coverage: if the raw table's index labels are distinct and no
  raw label is referenced by more than one edited row before the merge, then after the
  merge every label of the raw table is referenced by exactly one edited row.
\<close>

theorem merge_coverage:
  assumes "distinct (index raw_entries)"
      and "\<forall>i \<in> set (index raw_entries).
             length (filter (\<lambda>r. RawIndex r = Some i) (rows edited_entries)) \<le> 1"
  shows "\<forall>i \<in> set (index raw_entries).
           length (filter (\<lambda>r. RawIndex r = Some i) (rows (merge raw_entries edited_entries))) = 1"
proof
  fix i assume i: "i \<in> set (index raw_entries)"
  let ?old = "filter (\<lambda>r. RawIndex r = Some i) (rows edited_entries)"
  let ?new = "filter (\<lambda>r. RawIndex r = Some i) (new_data raw_entries edited_entries)"
  show "length (filter (\<lambda>r. RawIndex r = Some i) (rows (merge raw_entries edited_entries))) = 1"
  proof (cases "i \<in> set (raw_referenced edited_entries)")
    case True
    then have "?old \<noteq> []" by (simp add: referenced_iff)
    then have "length ?old \<ge> 1" by (cases ?old) auto
    with assms(2) i have "length ?old = 1" by force
    moreover from True have "?new = []" by (simp add: filter_new_data)
    ultimately show ?thesis by (simp add: rows_merge)
  next
    case False
    then have "?old = []" by (simp add: referenced_iff)
    moreover from False have "length ?new = length (filter (\<lambda>x. fst x = i) raw_entries)"
      by (simp add: filter_new_data)
    moreover from assms(1) i have "length (filter (\<lambda>x. fst x = i) raw_entries) = 1"
      by (intro count_label) (auto simp: index_def)
    ultimately show ?thesis by (simp add: rows_merge)
  qed
qed

theorem merge_coverage_witness:
  "distinct (index [(0, sam), (1, ann)]) \<and>
   length (filter (\<lambda>r. RawIndex r = Some 0) (rows [(0::int, from_raw (1, ann))])) \<le> 1 \<and>
   length (filter (\<lambda>r. RawIndex r = Some 1) (rows [(0::int, from_raw (1, ann))])) \<le> 1 \<and>
   length (filter (\<lambda>r. RawIndex r = Some 0)
     (rows (merge [(0, sam), (1, ann)] [(0, from_raw (1, ann))]))) = 1 \<and>
   length (filter (\<lambda>r. RawIndex r = Some 1)
     (rows (merge [(0, sam), (1, ann)] [(0, from_raw (1, ann))]))) = 1"
proof -
  have d: "distinct (index [(0::int, sam), (1, ann)])"
    by (simp add: index_def)
  have h: "\<forall>i \<in> set (index [(0, sam), (1, ann)]).
      length (filter (\<lambda>r. RawIndex r = Some i) (rows [(0::int, from_raw (1, ann))])) \<le> 1"
    by (simp add: index_def rows_def)
  from d h merge_coverage [OF d h] show ?thesis
    by (simp add: index_def)
qed

section \<open>Facts about lookup and navigation\<close>

lemma bind_result_simps:
  "bind_result (Inl e) f = Inl e"
  "bind_result (Inr x) f = f x"
  by (simp_all add: bind_result_def)

lemma position_of_less: "x \<in> set xs \<Longrightarrow> position_of xs x < length xs"
  unfolding position_of_def by (induction xs) auto

lemma nth_position_of: "x \<in> set xs \<Longrightarrow> xs ! position_of xs x = x"
  unfolding position_of_def by (induction xs) auto

lemma position_of_first: "q < position_of xs x \<Longrightarrow> xs ! q \<noteq> x"
  unfolding position_of_def using nth_length_takeWhile takeWhile_nth
  by (metis (mono_tags, lifting) nth_mem set_takeWhileD)

lemma wrap_in_range: "xs \<noteq> [] \<Longrightarrow> nat ((int p + d) mod int (length xs)) < length xs"
  by (simp add: nat_less_iff)

lemma data_row_at_missing: "idx \<notin> set (index edited_data) \<Longrightarrow> data_row_at edited_data idx = Inr None"
  by (simp add: data_row_at_def)

lemma sam_fields: "Match sam_edited = 5" "Team sam_edited = 200" "Name sam_edited = ''Sam''"
  by (simp_all add: sam_edited_def from_raw_def sam_def raw_row.defs edited_row.defs)

lemma loc_present: "distinct (index df) \<Longrightarrow> (l, row) \<in> set df \<Longrightarrow> loc df l = Inr row"
  by (simp add: loc_def index_def)

lemma loc_absent: "l \<notin> set (index df) \<Longrightarrow> loc df l = Inl KeyError"
proof -
  assume "l \<notin> set (index df)"
  then have "map_of df l = None"
    by (simp add: index_def map_of_eq_None_iff)
  then show ?thesis
    by (simp add: loc_def)
qed

lemma remove_entry_present:
  "distinct (index edited_data) \<Longrightarrow> (index_value, row) \<in> set edited_data \<Longrightarrow>
   remove_entry edited_data match team name index_value =
     (Inr (), if match = PStr (str_int (Match row)) \<and> team = PStr (str_int (Team row))
                  \<and> name = PStr (Name row)
              then drop_label edited_data index_value else edited_data)"
  by (auto simp: remove_entry_def loc_present Let_def)

lemma remove_entry_absent:
  "index_value \<notin> set (index edited_data) \<Longrightarrow>
   remove_entry edited_data match team name index_value = (Inl KeyError, edited_data)"
  by (simp add: remove_entry_def loc_absent)


section \<open>Facts about append\<close>

text \<open>
  \<^verbatim>\<open>VerificationManager.append\<close> on a table without a row for the key appends one row
  (no raw index, blank edit time, the current time, the first board, empty data and
  comments) and returns its entry; a second call with the same key finds that row,
  returns the same and leaves the table as it is. On a table that has such a row the
  table stays as it is and the lookup is made at the label of the first such row.
\<close>

lemma range_index_snoc:
  "range_index (rs @ [r]) = range_index rs @ [(int (length rs), r)]"
  by (simp add: range_index_def)

lemma filter_range_index_none:
  "\<forall>r \<in> set rs. \<not> Q r \<Longrightarrow> filter (\<lambda>(i, r). Q r) (range_index rs) = []"
  by (auto simp: range_index_def filter_empty_conv dest: set_zip_rightD)

lemma match_row_none_rows:
  "match_row edited_entries match team name = [] \<Longrightarrow>
   \<forall>r \<in> set (rows edited_entries). \<not> (Match r = match \<and> Team r = team \<and> Name r = name)"
  by (force simp: match_row_def rows_def filter_empty_conv)

lemma appended_row_fields:
  "Match (appended_row env b match team name) = match"
  "Team (appended_row env b match team name) = team"
  "Name (appended_row env b match team name) = name"
  "RawIndex (appended_row env b match team name) = None"
  "Edited (appended_row env b match team name) = []"
  "Data (appended_row env b match team name) = []"
  "Comments (appended_row env b match team name) = []"
  "StartTime (appended_row env b match team name) = now env"
  "Board (appended_row env b match team name) = board_name env b"
  by (simp_all add: appended_row_def)

lemma match_row_appended:
  assumes "match_row edited_entries match team name = []"
  shows "match_row (range_index (rows edited_entries @ [appended_row env b match team name]))
           match team name
         = [(int (length edited_entries), appended_row env b match team name)]"
proof -
  have "filter (\<lambda>(i, r). Match r = match \<and> Team r = team \<and> Name r = name)
          (range_index (rows edited_entries)) = []"
    using match_row_none_rows [OF assms] by (rule filter_range_index_none)
  then show ?thesis
    by (simp add: match_row_def range_index_snoc appended_row_fields rows_def)
qed

lemma iloc_last:
  "iloc (range_index (rs @ [r])) (int (length rs)) = Inr r"
  by (simp add: iloc_def range_index_snoc length_range_index nth_append)

lemma getitem_appended:
  "getitem env raw_entries
     (range_index (rows edited_entries @ [appended_row env b match team name]))
     (int (length edited_entries))
   = bind_result (Entry env (raw_row.truncate (appended_row env b match team name)))
       (\<lambda>edited. Inr (None, edited, []))"
proof -
  have "int (length edited_entries) \<in>
          set (index (range_index (rows edited_entries @ [appended_row env b match team name])))"
    by (simp add: index_range_index rows_def)
  moreover have "iloc (range_index (rows edited_entries @ [appended_row env b match team name]))
                   (int (length edited_entries)) = Inr (appended_row env b match team name)"
    using iloc_last [of "rows edited_entries"] by (simp add: rows_def)
  ultimately show ?thesis
    by (simp add: getitem_def bind_result_simps appended_row_fields)
qed

lemma append_entry_existing:
  assumes "match_row edited_entries match team name \<noteq> []"
  shows "append_entry env raw_entries edited_entries match team name =
     (getitem env raw_entries edited_entries
        (fst (hd (match_row edited_entries match team name))), edited_entries)"
proof -
  from assms obtain x xs where "match_row edited_entries match team name = x # xs"
    by (cases "match_row edited_entries match team name") auto
  then show ?thesis
    by (simp add: append_entry_def Let_def item_def index_def bind_result_simps)
qed

lemma append_entry_new:
  assumes "match_row edited_entries match team name = []" and "get_first env = Inr b"
  shows "append_entry env raw_entries edited_entries match team name =
     (bind_result (Entry env (raw_row.truncate (appended_row env b match team name)))
        (\<lambda>edited. Inr (None, edited, [])),
      range_index (rows edited_entries @ [appended_row env b match team name]))"
  using assms
  by (simp add: append_entry_def Let_def match_row_appended item_def index_def
      bind_result_simps getitem_appended)

lemma append_entry_idempotent:
  assumes "match_row edited_entries match team name = []" and "get_first env = Inr b"
  shows "append_entry env raw_entries
           (snd (append_entry env raw_entries edited_entries match team name)) match team name
         = append_entry env raw_entries edited_entries match team name
         \<and> rows (snd (append_entry env raw_entries edited_entries match team name))
             = rows edited_entries @ [appended_row env b match team name]"
proof -
  let ?t = "range_index (rows edited_entries @ [appended_row env b match team name])"
  have m: "match_row ?t match team name
             = [(int (length edited_entries), appended_row env b match team name)]"
    using assms(1) by (rule match_row_appended)
  then have "append_entry env raw_entries ?t match team name =
               (getitem env raw_entries ?t (int (length edited_entries)), ?t)"
    by (simp add: append_entry_existing)
  then show ?thesis
    by (simp add: append_entry_new [OF assms] getitem_appended rows_range_index)
qed

lemma iloc_range_index:
  "index df = map int [0..<length df] \<Longrightarrow> (l, row) \<in> set df \<Longrightarrow> iloc df l = Inr row"
proof -
  assume labels: "index df = map int [0..<length df]" and mem: "(l, row) \<in> set df"
  then obtain n where n: "n < length df" "df ! n = (l, row)"
    by (auto simp: in_set_conv_nth)
  with labels have "l = int n"
    by (metis index_def fst_conv nth_map nth_upt add_0 length_map)
  with n show ?thesis
    by (simp add: iloc_def)
qed

section \<open>Facts about navigation\<close>

text \<open>
  On a table whose index labels are the row positions, the lookup by a label of the
  table reads the row with that label, and the entry is made of its fields, the board
  found by its name and the decoded data; the only errors are those of the board
  registry and the decoder.
\<close>

lemma data_row_at_row:
  assumes "index edited_data = map int [0..<length edited_data]"
      and "(idx, row) \<in> set edited_data"
  shows "data_row_at edited_data idx = Inr (Some row)"
proof -
  from assms(2) have "idx \<in> set (index edited_data)"
    by (force simp: index_def)
  moreover from assms have "iloc edited_data idx = Inr row"
    by (rule iloc_range_index)
  ultimately show ?thesis
    by (simp add: data_row_at_def bind_result_simps)
qed

lemma entry_at_row:
  assumes "index edited_data = map int [0..<length edited_data]"
      and "(idx, row) \<in> set edited_data"
  shows "entry_at env edited_data idx =
     (case get_board_by_name env (Board row) of
        Inl e \<Rightarrow> Inl e
      | Inr entry_board \<Rightarrow>
          (case decode env (Data row) entry_board of
             Inl e \<Rightarrow> Inl e
           | Inr decoded \<Rightarrow>
               Inr (EntryInfo \<lparr>info_Match = Match row, info_Team = Team row,
                      info_Name = Name row, info_StartTime = StartTime row,
                      info_Comments = Comments row,
                      info_Board = board_name env entry_board,
                      info_Data = decoded\<rparr>)))"
  by (simp add: entry_at_def data_row_at_row [OF assms] bind_result_def)

lemma entry_at_missing:
  "idx \<notin> set (index edited_data) \<Longrightarrow> entry_at env edited_data idx = Inr EmptyDict"
  by (simp add: entry_at_def data_row_at_missing bind_result_simps)

lemma get_relative_entry_found:
  assumes "index edited_data = map int [0..<length edited_data]"
      and "current_index \<in> set (map fst filtered_table)"
      and "(map fst filtered_table !
              nat ((int (position_of (map fst filtered_table) current_index) + increment_by)
                     mod int (length filtered_table)), row) \<in> set edited_data"
  shows "get_relative_entry env edited_data filtered_table current_index increment_by =
     (case get_board_by_name env (Board row) of
        Inl e \<Rightarrow> Inl e
      | Inr entry_board \<Rightarrow>
          (case decode env (Data row) entry_board of
             Inl e \<Rightarrow> Inl e
           | Inr decoded \<Rightarrow>
               Inr (EntryInfo \<lparr>info_Match = Match row, info_Team = Team row,
                      info_Name = Name row, info_StartTime = StartTime row,
                      info_Comments = Comments row,
                      info_Board = board_name env entry_board,
                      info_Data = decoded\<rparr>)))"
proof -
  from assms(2) have "map fst filtered_table \<noteq> []" by auto
  with assms(2) have "get_relative_entry env edited_data filtered_table current_index increment_by =
      entry_at env edited_data (map fst filtered_table !
              nat ((int (position_of (map fst filtered_table) current_index) + increment_by)
                     mod int (length filtered_table)))"
    by (simp add: get_relative_entry_def Let_def)
  with entry_at_row [OF assms(1) assms(3)] show ?thesis by simp
qed

text \<open>
  The three cases of \<^verbatim>\<open>get_relative_entry\<close>; the position that is computed always
  lies inside the view.
\<close>

lemma get_relative_entry_positions:
  "(filtered_table = [] \<longrightarrow>
      get_relative_entry env edited_data filtered_table current_index increment_by = Inr EmptyDict)
   \<and> (current_index \<in> set (map fst filtered_table) \<longrightarrow>
        position_of (map fst filtered_table) current_index < length filtered_table
        \<and> map fst filtered_table ! position_of (map fst filtered_table) current_index = current_index
        \<and> nat ((int (position_of (map fst filtered_table) current_index) + increment_by)
                 mod int (length filtered_table)) < length filtered_table
        \<and> get_relative_entry env edited_data filtered_table current_index increment_by =
            entry_at env edited_data
              (map fst filtered_table !
                 nat ((int (position_of (map fst filtered_table) current_index) + increment_by)
                        mod int (length filtered_table))))
   \<and> (filtered_table \<noteq> [] \<and> current_index \<notin> set (map fst filtered_table) \<longrightarrow>
        get_relative_entry env edited_data filtered_table current_index increment_by =
          entry_at env edited_data (map fst filtered_table ! 0))"
proof (intro conjI impI)
  assume "filtered_table = []"
  then show "get_relative_entry env edited_data filtered_table current_index increment_by = Inr EmptyDict"
    by (simp add: get_relative_entry_def)
next
  assume found: "current_index \<in> set (map fst filtered_table)"
  then have ne: "map fst filtered_table \<noteq> []" by auto
  from found show "position_of (map fst filtered_table) current_index < length filtered_table"
    using position_of_less [of current_index "map fst filtered_table"] by simp
  from found show "map fst filtered_table ! position_of (map fst filtered_table) current_index = current_index"
    by (rule nth_position_of)
  from ne show "nat ((int (position_of (map fst filtered_table) current_index) + increment_by)
                 mod int (length filtered_table)) < length filtered_table"
    using wrap_in_range [of "map fst filtered_table"] by simp
  from found ne show "get_relative_entry env edited_data filtered_table current_index increment_by =
            entry_at env edited_data
              (map fst filtered_table !
                 nat ((int (position_of (map fst filtered_table) current_index) + increment_by)
                        mod int (length filtered_table)))"
    by (simp add: get_relative_entry_def Let_def)
next
  assume "filtered_table \<noteq> [] \<and> current_index \<notin> set (map fst filtered_table)"
  then show "get_relative_entry env edited_data filtered_table current_index increment_by =
          entry_at env edited_data (map fst filtered_table ! 0)"
    by (simp add: get_relative_entry_def Let_def)
qed

section \<open>Claims about navigation, lookup and removal\<close>

text \<open>
  C7, at a failing input. From the table with the labels 0 to 3, \<^verbatim>\<open>remove_entry\<close>
  drops the row with label 0; the labels 1, 2, 3 are left. In the view of these three
  rows the identity after 1 is 2, whose row has team 102; \<^verbatim>\<open>next\<close> from identity 1
  returns the entry of team 103, the row at position 2, since \<^verbatim>\<open>data_row_at\<close> tests
  the label and then reads by position. From identity 2 the next identity is 3, which
  is in the table, and the call raises \<open>IndexError\<close>.
\<close>

theorem get_relative_entry_failing_input:
  "remove_entry four_rows (PStr ''1'') (PStr ''100'') (PStr ''Sam'') 0 = (Inr (), gap_table)
   \<and> loc gap_table 2 = Inr (team_row 102)
   \<and> next_entry example_env gap_table gap_view 1 =
       Inr (EntryInfo \<lparr>info_Match = 1, info_Team = 103, info_Name = ''Sam'',
              info_StartTime = ''30'', info_Comments = [], info_Board = ''Comp'',
              info_Data = []\<rparr>)
   \<and> loc gap_table 3 = Inr (team_row 103)
   \<and> next_entry example_env gap_table gap_view 2 = Inl IndexError"
  by code_simp

text \<open>
  On a table whose index labels are the row positions the specification's example
  holds: with the view 10, 11, 12 and the current identity 12, next returns the entry
  of the row with identity 10.
\<close>

lemma navigation_example:
  "next_entry example_env nav_table nav_view 12 =
     Inr (EntryInfo \<lparr>info_Match = 1, info_Team = 110, info_Name = ''Sam'',
            info_StartTime = ''30'', info_Comments = [], info_Board = ''Comp'',
            info_Data = []\<rparr>)
   \<and> loc nav_table 10 = Inr (team_row 110)"
  by code_simp

text \<open>
  C8, as amended. \<^verbatim>\<open>EntryManager.entry_at\<close> returns the empty dict, and raises
  nothing, for every identity that is not in the index of the edited table;
  \<^verbatim>\<open>VerificationManager.__getitem__\<close> raises \<open>IndexError\<close> for such an identity.
  On an edited table whose index labels are the row positions, navigation from a
  current identity that is not in a non-empty view falls back to the first item of the
  view: the result is the entry made of the fields of the row with the view's first
  identity (the only errors being those of the board registry and the decoder), and the
  empty dict when the table has no such row.
\<close>

theorem lookup_missing_identity:
  "(idx \<notin> set (index edited_data) \<longrightarrow> entry_at env edited_data idx = Inr EmptyDict)
   \<and> (idx \<notin> set (index edited_entries) \<longrightarrow>
        getitem env raw_entries edited_entries idx = Inl IndexError)
   \<and> (index edited_data = map int [0..<length edited_data] \<and> filtered_table \<noteq> []
        \<and> idx \<notin> set (map fst filtered_table) \<longrightarrow>
        (fst (hd filtered_table) \<notin> set (index edited_data) \<longrightarrow>
           get_relative_entry env edited_data filtered_table idx increment_by = Inr EmptyDict)
        \<and> (\<forall>row. (fst (hd filtered_table), row) \<in> set edited_data \<longrightarrow>
              get_relative_entry env edited_data filtered_table idx increment_by =
                (case get_board_by_name env (Board row) of
                   Inl e \<Rightarrow> Inl e
                 | Inr entry_board \<Rightarrow>
                     (case decode env (Data row) entry_board of
                        Inl e \<Rightarrow> Inl e
                      | Inr decoded \<Rightarrow>
                          Inr (EntryInfo \<lparr>info_Match = Match row, info_Team = Team row,
                                 info_Name = Name row, info_StartTime = StartTime row,
                                 info_Comments = Comments row,
                                 info_Board = board_name env entry_board,
                                 info_Data = decoded\<rparr>)))))"
proof (intro conjI impI allI)
  assume "idx \<notin> set (index edited_data)"
  then show "entry_at env edited_data idx = Inr EmptyDict"
    by (rule entry_at_missing)
next
  assume "idx \<notin> set (index edited_entries)"
  then show "getitem env raw_entries edited_entries idx = Inl IndexError"
    by (simp add: getitem_def)
next
  assume a: "index edited_data = map int [0..<length edited_data] \<and> filtered_table \<noteq> []
        \<and> idx \<notin> set (map fst filtered_table)"
  then have fallback: "get_relative_entry env edited_data filtered_table idx increment_by =
      entry_at env edited_data (fst (hd filtered_table))"
    by (cases filtered_table) (simp_all add: get_relative_entry_def Let_def)
  {
    assume "fst (hd filtered_table) \<notin> set (index edited_data)"
    with fallback show "get_relative_entry env edited_data filtered_table idx increment_by = Inr EmptyDict"
      by (simp add: entry_at_missing)
  }
  {
    fix row assume "(fst (hd filtered_table), row) \<in> set edited_data"
    with a fallback show "get_relative_entry env edited_data filtered_table idx increment_by =
                (case get_board_by_name env (Board row) of
                   Inl e \<Rightarrow> Inl e
                 | Inr entry_board \<Rightarrow>
                     (case decode env (Data row) entry_board of
                        Inl e \<Rightarrow> Inl e
                      | Inr decoded \<Rightarrow>
                          Inr (EntryInfo \<lparr>info_Match = Match row, info_Team = Team row,
                                 info_Name = Name row, info_StartTime = StartTime row,
                                 info_Comments = Comments row,
                                 info_Board = board_name env entry_board,
                                 info_Data = decoded\<rparr>)))"
      by (simp add: entry_at_row)
  }
qed

text \<open>
  The claim as stated says that lookup and navigation by an identity that is not in
  the table never raise. \<^verbatim>\<open>VerificationManager.__getitem__\<close> raises for the identity
  3 on a table whose only row has the identity 0; navigation from the missing identity
  0 on a table whose only row has the label 3 raises \<open>IndexError\<close>.
\<close>

theorem lookup_missing_identity_counterexample:
  "3 \<notin> set (index [(0::int, sam_edited)])
   \<and> getitem example_env [(0, sam)] [(0, sam_edited)] 3 = Inl IndexError
   \<and> 0 \<notin> set (index [(3::int, team_row 103)])
   \<and> get_relative_entry example_env [(3, team_row 103)] [(3::int, ())] 0 1 = Inl IndexError"
  by (simp add: getitem_def index_def get_relative_entry_def entry_at_def data_row_at_def
      iloc_def bind_result_simps)

theorem lookup_missing_identity_witness:
  "7 \<notin> set (index four_rows)
   \<and> index four_rows = map int [0..<length four_rows]
   \<and> 7 \<notin> set (map fst [(2::int, ()), (1, ())])
   \<and> (2, team_row 102) \<in> set four_rows
   \<and> 9 \<notin> set (index four_rows)
   \<and> entry_at example_env four_rows 7 = Inr EmptyDict
   \<and> getitem example_env [(0, sam)] four_rows 7 = Inl IndexError
   \<and> get_relative_entry example_env four_rows [(9::int, ()), (1, ())] 7 1 = Inr EmptyDict
   \<and> get_relative_entry example_env four_rows [(2::int, ()), (1, ())] 7 1 =
       Inr (EntryInfo \<lparr>info_Match = 1, info_Team = 102, info_Name = ''Sam'',
              info_StartTime = ''30'', info_Comments = [], info_Board = ''Comp'',
              info_Data = []\<rparr>)"
proof -
  note found = lookup_missing_identity [where idx = 7 and edited_data = four_rows
        and env = example_env and filtered_table = "[(2::int, ()), (1, ())]"
        and increment_by = 1 and edited_entries = four_rows and raw_entries = "[(0, sam)]"]
  note missing = lookup_missing_identity [where idx = 7 and edited_data = four_rows
        and env = example_env and filtered_table = "[(9::int, ()), (1, ())]"
        and increment_by = 1 and edited_entries = four_rows and raw_entries = "[(0, sam)]"]
  have labels: "index four_rows = map int [0..<length four_rows]"
    by (simp add: four_rows_def index_range_index length_range_index)
  have idx: "index four_rows = [0, 1, 2, 3]"
    by (simp add: four_rows_def index_def range_index_def upt_rec)
  have n7: "7 \<notin> set (index four_rows)" and n9: "9 \<notin> set (index four_rows)"
    by (simp_all add: idx)
  have mem: "(2, team_row 102) \<in> set four_rows"
    by (simp add: four_rows_def range_index_def upt_rec)
  have view2: "index four_rows = map int [0..<length four_rows] \<and> [(2::int, ()), (1, ())] \<noteq> []
        \<and> 7 \<notin> set (map fst [(2::int, ()), (1, ())])"
    using labels by simp
  have view9: "index four_rows = map int [0..<length four_rows] \<and> [(9::int, ()), (1, ())] \<noteq> []
        \<and> 7 \<notin> set (map fst [(9::int, ()), (1, ())])"
    using labels by simp
  have first2: "(fst (hd [(2::int, ()), (1, ())]), team_row 102) \<in> set four_rows"
    using mem by simp
  have first9: "fst (hd [(9::int, ()), (1, ())]) \<notin> set (index four_rows)"
    using n9 by simp
  have c1: "entry_at example_env four_rows 7 = Inr EmptyDict"
    using found [THEN conjunct1, THEN mp, OF n7] .
  have c2: "getitem example_env [(0, sam)] four_rows 7 = Inl IndexError"
    using found [THEN conjunct2, THEN conjunct1, THEN mp, OF n7] .
  have c3: "get_relative_entry example_env four_rows [(9::int, ()), (1, ())] 7 1 = Inr EmptyDict"
    using missing [THEN conjunct2, THEN conjunct2, THEN mp, OF view9, THEN conjunct1, THEN mp,
        OF first9] .
  have c4: "get_relative_entry example_env four_rows [(2::int, ()), (1, ())] 7 1 =
       Inr (EntryInfo \<lparr>info_Match = 1, info_Team = 102, info_Name = ''Sam'',
              info_StartTime = ''30'', info_Comments = [], info_Board = ''Comp'',
              info_Data = []\<rparr>)"
    using found [THEN conjunct2, THEN conjunct2, THEN mp, OF view2, THEN conjunct2, THEN spec,
        THEN mp, OF first2]
    by (simp add: example_env_def team_row_def)
  from n7 labels mem n9 c1 c2 c3 c4 show ?thesis
    by simp
qed

text \<open>
  C9, at a failing input. The row at identity 3 holds match 5, team 200 and name Sam.
  Called with those very values (the numbers as integers) \<^verbatim>\<open>remove_entry\<close> deletes
  nothing, since it compares the string forms of the row's fields with the supplied
  values; called with an identity that is not in the table it raises \<open>KeyError\<close>.
\<close>

theorem remove_entry_failing_input:
  "Match sam_edited = 5 \<and> Team sam_edited = 200 \<and> Name sam_edited = ''Sam''
   \<and> remove_entry [(3, sam_edited)] (PInt 5) (PInt 200) (PStr ''Sam'') 3 = (Inr (), [(3, sam_edited)])
   \<and> remove_entry [(3, sam_edited)] (PStr ''5'') (PStr ''200'') (PStr ''Sam'') 4
        = (Inl KeyError, [(3, sam_edited)])"
  by (simp add: remove_entry_def loc_def sam_fields)


section \<open>Claims about append and the importer\<close>

text \<open>
  C4, at a failing input. \<^verbatim>\<open>EntryManager.add_entry\<close> on a table with no row for
  (5, 200, Sam) returns \<^verbatim>\<open>None\<close>; it has no statement that inserts a row.
  \<^verbatim>\<open>VerificationManager.append\<close> does insert it (\<open>append_entry_new\<close>,
  \<open>append_entry_idempotent\<close>).
\<close>

theorem add_entry_failing_input:
  "get_matching_row [] 5 200 ''Sam'' = []
   \<and> add_entry example_env [] 5 200 ''Sam'' = Inr None"
  by (simp add: add_entry_def get_matching_row_def)


text \<open>
  C5, at a failing input. The line matches the grammar and has the comments
  \<^verbatim>\<open>hello_world\<close>; the row's comments are \<^verbatim>\<open>hello\<close>. A comma inside the comments
  is removed by \<^verbatim>\<open>read_one\<close>.
\<close>

theorem make_columns_failing_input:
  "read_one [''5_200_Sam_0000001e_00000001_00ff_hello_world,ignored'']
      = [''5_200_Sam_0000001e_00000001_00ff_hello_world'']
   \<and> matcher ''5_200_Sam_0000001e_00000001_00ff_hello_world''
   \<and> make_columns example_env ''5_200_Sam_0000001e_00000001_00ff_hello_world'' =
       Inr \<lparr>Match = 5, Team = 200, Name = ''Sam'', StartTime = ''30'', Board = ''Comp'',
            Data = ''00ff'', Comments = ''hello''\<rparr>
   \<and> read_one [''5_200_Sam_0000001e_00000001_00ff_a,b,ignored'']
      = [''5_200_Sam_0000001e_00000001_00ff_ab'']"
  by code_simp


text \<open>The line of the specification's own example is converted as described.\<close>

lemma make_columns_example:
  "read_all [''5_200_Sam_0000001e_00000001_00ff_hello,ignored'']
      = [''5_200_Sam_0000001e_00000001_00ff_hello'']
   \<and> make_columns example_env ''5_200_Sam_0000001e_00000001_00ff_hello'' =
       Inr \<lparr>Match = 5, Team = 200, Name = ''Sam'', StartTime = ''30'', Board = ''Comp'',
            Data = ''00ff'', Comments = ''hello''\<rparr>"
  by code_simp


section \<open>Facts about search\<close>

lemma search_rules_drop_empty:
  "search_rules (kwargs1 @ (k, []) # kwargs2) = search_rules (kwargs1 @ kwargs2)"
  by (simp add: search_rules_def)

lemma search_rules_Nil: "search_rules [] = Map.empty"
  by (simp add: search_rules_def)

lemma search_cong: "search_rules kw = search_rules kw' \<Longrightarrow> search df kw = search df kw'"
  by (simp add: search_def)

lemma search_rules_Some:
  assumes "distinct (map (capitalize \<circ> fst) kwargs)"
  shows "search_rules kwargs K = Some vs \<longleftrightarrow>
           (\<exists>k. (k, vs) \<in> set kwargs \<and> vs \<noteq> [] \<and> capitalize k = K)"
proof -
  let ?L = "map (\<lambda>(k, v). (capitalize k, v)) (filter (\<lambda>(k, v). v \<noteq> []) kwargs)"
  have "fst \<circ> (\<lambda>(k, v). (capitalize k, v)) = capitalize \<circ> (fst :: string \<times> pyval list \<Rightarrow> string)"
    by (auto simp: fun_eq_iff)
  moreover from assms
  have "distinct (map (capitalize \<circ> fst) (filter (\<lambda>(k, v). v \<noteq> []) kwargs))"
    by (rule distinct_map_filter)
  ultimately have "distinct (map fst ?L)"
    by simp
  then have "distinct (map fst (rev ?L))"
    by (simp add: rev_map [symmetric] del: rev_map)
  then have "map_of (rev ?L) K = Some vs \<longleftrightarrow> (K, vs) \<in> set (rev ?L)"
    by (rule map_of_eq_Some_iff)
  also have "\<dots> \<longleftrightarrow> (\<exists>k. (k, vs) \<in> set kwargs \<and> vs \<noteq> [] \<and> capitalize k = K)"
    by (auto simp: image_iff)
  finally show ?thesis
    by (simp add: search_rules_def)
qed

lemma name_matches_strings:
  "list_all is_string names \<Longrightarrow>
   name_matches names a = Inr (\<exists>v \<in> set names. sublist (lower (py_str v)) (lower a))"
proof (induction names)
  case Nil
  then show ?case by simp
next
  case (Cons name names)
  then obtain s where "name = PStr s" by (cases name) auto
  with Cons show ?case by (simp add: bind_result_simps)
qed

lemma possible_names_strings:
  "list_all is_string names \<Longrightarrow>
   possible_names names available =
     Inr (filter (\<lambda>a. \<exists>v \<in> set names. sublist (lower (py_str v)) (lower a)) available)"
  by (induction available) (simp_all add: name_matches_strings bind_result_simps)

lemma rules_hold_header:
  "rules_hold rules r \<longleftrightarrow>
     (case rules ''Match'' of None \<Rightarrow> True | Some vs \<Rightarrow> relaxed_match ''Match'' vs r) \<and>
     (case rules ''Team'' of None \<Rightarrow> True | Some vs \<Rightarrow> relaxed_match ''Team'' vs r) \<and>
     (case rules ''Name'' of None \<Rightarrow> True | Some vs \<Rightarrow> relaxed_match ''Name'' vs r) \<and>
     (case rules ''Board'' of None \<Rightarrow> True | Some vs \<Rightarrow> relaxed_match ''Board'' vs r) \<and>
     (case rules ''Edited'' of None \<Rightarrow> True | Some vs \<Rightarrow> relaxed_match ''Edited'' vs r)"
  (is "?L \<longleftrightarrow> ?R")
proof
  assume ?L then show ?R
    by (auto simp: rules_hold_def split: option.splits)
next
  assume R: ?R
  show ?L
    unfolding rules_hold_def
  proof (intro allI impI)
    fix F vs assume F: "rules F = Some vs"
    consider "F = ''Match''" | "F = ''Team''" | "F = ''Name''" | "F = ''Board''" | "F = ''Edited''"
      | "F \<noteq> ''Match''" "F \<noteq> ''Team''" "F \<noteq> ''Name''" "F \<noteq> ''Board''" "F \<noteq> ''Edited''"
      by blast
    then show "relaxed_match F vs r"
    proof cases
      case 6 then show ?thesis by (simp add: relaxed_match_def)
    qed (use R F in \<open>simp_all\<close>)
  qed
qed


lemma rules_hold_kwargs:
  assumes "distinct (map (capitalize \<circ> fst) kwargs)"
  shows "rules_hold (search_rules kwargs) r \<longleftrightarrow>
           (\<forall>(k, vs) \<in> set kwargs. vs \<noteq> [] \<longrightarrow> relaxed_match (capitalize k) vs r)"
  unfolding rules_hold_def search_rules_Some [OF assms] by blast

lemma in_possible_numbers:
  "a \<in> set (possible_numbers wanted (remdups available)) \<longleftrightarrow>
     a \<in> set available \<and> (\<exists>w \<in> set wanted. prefix (py_str w) (str_int a))"
  by (auto simp: possible_numbers_def)

lemma row_tests:
  assumes "(i, r) \<in> set edited_entries"
  shows "Match r \<in> set (possible_numbers vs (remdups (map Match (rows edited_entries))))
           \<longleftrightarrow> relaxed_match ''Match'' vs r"
    and "Team r \<in> set (possible_numbers vs (remdups (map Team (rows edited_entries))))
           \<longleftrightarrow> relaxed_match ''Team'' vs r"
    and "Name r \<in> set (filter (\<lambda>a. \<exists>v \<in> set vs. sublist (lower (py_str v)) (lower a))
                          (remdups (map Name (rows edited_entries))))
           \<longleftrightarrow> relaxed_match ''Name'' vs r"
    and "PStr (Board r) \<in> set vs \<longleftrightarrow> relaxed_match ''Board'' vs r"
    and "PStr (Edited r) \<in> set vs \<longleftrightarrow> relaxed_match ''Edited'' vs r"
proof -
  from assms have "r \<in> set (rows edited_entries)"
    by (force simp: rows_def)
  then show "Match r \<in> set (possible_numbers vs (remdups (map Match (rows edited_entries))))
           \<longleftrightarrow> relaxed_match ''Match'' vs r"
    and "Team r \<in> set (possible_numbers vs (remdups (map Team (rows edited_entries))))
           \<longleftrightarrow> relaxed_match ''Team'' vs r"
    and "Name r \<in> set (filter (\<lambda>a. \<exists>v \<in> set vs. sublist (lower (py_str v)) (lower a))
                          (remdups (map Name (rows edited_entries))))
           \<longleftrightarrow> relaxed_match ''Name'' vs r"
    by (simp_all add: in_possible_numbers relaxed_match_def)
  show "PStr (Board r) \<in> set vs \<longleftrightarrow> relaxed_match ''Board'' vs r"
    and "PStr (Edited r) \<in> set vs \<longleftrightarrow> relaxed_match ''Edited'' vs r"
    by (simp_all add: relaxed_match_def)
qed

lemma search_result:
  assumes names: "\<And>names. search_rules kwargs ''Name'' = Some names \<Longrightarrow> list_all is_string names"
  shows "search edited_entries kwargs =
           Inr (sort_values (filter (\<lambda>(i, r). rules_hold (search_rules kwargs) r) edited_entries))"
proof -
  let ?rules = "search_rules kwargs"
  let ?name_rule = "map_option (\<lambda>names. filter (\<lambda>a. \<exists>v \<in> set names. sublist (lower (py_str v)) (lower a))
                          (remdups (map Name (rows edited_entries)))) (?rules ''Name'')"
  have name_rule: "(case ?rules ''Name'' of
              None \<Rightarrow> Inr None
            | Some names \<Rightarrow>
                bind_result (possible_names names (remdups (map Name (rows edited_entries))))
                  (\<lambda>ps. Inr (Some ps))) = Inr ?name_rule"
    using names by (cases "?rules ''Name''") (simp_all add: possible_names_strings bind_result_simps)
  have "filter (\<lambda>(i, r).
           (case map_option (\<lambda>matches. possible_numbers matches (remdups (map Match (rows edited_entries))))
                   (?rules ''Match'') of None \<Rightarrow> True | Some ms \<Rightarrow> Match r \<in> set ms) \<and>
           (case map_option (\<lambda>teams. possible_numbers teams (remdups (map Team (rows edited_entries))))
                   (?rules ''Team'') of None \<Rightarrow> True | Some ts \<Rightarrow> Team r \<in> set ts) \<and>
           (case ?name_rule of None \<Rightarrow> True | Some ns \<Rightarrow> Name r \<in> set ns) \<and>
           (case ?rules ''Board'' of None \<Rightarrow> True | Some bs \<Rightarrow> PStr (Board r) \<in> set bs) \<and>
           (case ?rules ''Edited'' of None \<Rightarrow> True | Some es \<Rightarrow> PStr (Edited r) \<in> set es))
          edited_entries
        = filter (\<lambda>(i, r). rules_hold ?rules r) edited_entries"
  proof (rule filter_cong [OF refl], clarify)
    fix i r assume "(i, r) \<in> set edited_entries"
    note t = row_tests [OF this]
    show "((case map_option (\<lambda>matches. possible_numbers matches (remdups (map Match (rows edited_entries))))
                   (?rules ''Match'') of None \<Rightarrow> True | Some ms \<Rightarrow> Match r \<in> set ms) \<and>
           (case map_option (\<lambda>teams. possible_numbers teams (remdups (map Team (rows edited_entries))))
                   (?rules ''Team'') of None \<Rightarrow> True | Some ts \<Rightarrow> Team r \<in> set ts) \<and>
           (case ?name_rule of None \<Rightarrow> True | Some ns \<Rightarrow> Name r \<in> set ns) \<and>
           (case ?rules ''Board'' of None \<Rightarrow> True | Some bs \<Rightarrow> PStr (Board r) \<in> set bs) \<and>
           (case ?rules ''Edited'' of None \<Rightarrow> True | Some es \<Rightarrow> PStr (Edited r) \<in> set es))
          = rules_hold ?rules r"
      unfolding rules_hold_header
      by (cases "?rules ''Match''"; cases "?rules ''Team''"; cases "?rules ''Name''";
          cases "?rules ''Board''"; cases "?rules ''Edited''")
         (simp_all only: t option.case option.map_sel option.simps)
  qed
  then show ?thesis
    unfolding search_def Let_def name_rule bind_result_simps by simp
qed

section \<open>Claims about search\<close>

text \<open>
  C6, as amended. For keyword names that stay distinct when capitalised, and string
  values for the name field, \<^verbatim>\<open>search\<close> raises nothing and returns the rows of the
  edited table, each as often as it is there and with its index label, for which every
  supplied field with a non-empty value list has some supplied value that matches
  (Match and Team: the decimal string of the row's value starts with the string form of
  the supplied value; Name: the lower-cased supplied name is contained in the lower-cased
  row name; Board and Edited: the row's value is one of the supplied values); the result
  is sorted ascending by (Match, Team). A field with an empty value list imposes no
  constraint.
\<close>

theorem search_relaxed:
  assumes keys: "distinct (map (capitalize \<circ> fst) kwargs)"
      and names: "\<forall>(k, vs) \<in> set kwargs. capitalize k = ''Name'' \<longrightarrow> list_all is_string vs"
  shows "\<exists>results. search edited_entries kwargs = Inr results
           \<and> mset results =
               mset (filter (\<lambda>(i, r). \<forall>(k, vs) \<in> set kwargs.
                               vs \<noteq> [] \<longrightarrow> relaxed_match (capitalize k) vs r) edited_entries)
           \<and> sorted (map (\<lambda>(i, r). (Match r, Team r)) results)"
proof -
  have "list_all is_string ns" if "search_rules kwargs ''Name'' = Some ns" for ns
    using that names unfolding search_rules_Some [OF keys] by blast
  then have "search edited_entries kwargs =
      Inr (sort_values (filter (\<lambda>(i, r). rules_hold (search_rules kwargs) r) edited_entries))"
    by (rule search_result)
  then show ?thesis
    by (simp add: rules_hold_kwargs [OF keys] sort_values_def)
qed

text \<open>
  The claim as stated asks, for each supplied field, for some supplied value that
  matches. With the team field supplied and no value in its list, no row qualifies in
  that reading, yet the row is returned.
\<close>

theorem search_relaxed_counterexample:
  "search [(0, team_row 20)] [(''team'', [])] = Inr [(0, team_row 20)]
   \<and> \<not> relaxed_match (capitalize ''team'') [] (team_row 20)"
  by code_simp

text \<open>The search for team 20 finds the teams 20, 200 and 2001 and not 120.\<close>

theorem search_relaxed_witness:
  "distinct (map (capitalize \<circ> fst) [(''team'', [PStr ''20''])])
   \<and> search team_table [(''team'', [PStr ''20''])]
        = Inr [(3, team_row 20), (2, team_row 200), (1, team_row 2001)]
   \<and> (\<exists>results. search team_table [(''team'', [PStr ''20''])] = Inr results
         \<and> mset results =
             mset (filter (\<lambda>(i, r). \<forall>(k, vs) \<in> set [(''team'', [PStr ''20''])].
                             vs \<noteq> [] \<longrightarrow> relaxed_match (capitalize k) vs r) team_table)
         \<and> sorted (map (\<lambda>(i, r). (Match r, Team r)) results))"
proof -
  have keys: "distinct (map (capitalize \<circ> fst) [(''team'', [PStr ''20''])])"
    by simp
  have names: "\<forall>(k, vs) \<in> set [(''team'', [PStr ''20''])].
                 capitalize k = ''Name'' \<longrightarrow> list_all is_string vs"
    by (simp add: upper_char_def)
  have "search team_table [(''team'', [PStr ''20''])]
        = Inr [(3, team_row 20), (2, team_row 200), (1, team_row 2001)]"
    by code_simp
  with keys search_relaxed [OF keys names, of team_table] show ?thesis
    by blast
qed


text \<open>
  C10. A criteria field supplied with an empty value list is dropped before matching:
  leaving it out of the call gives the same result, so \<^verbatim>\<open>search(team=[])\<close> returns
  what \<^verbatim>\<open>search()\<close> returns, which is the whole table, sorted.
\<close>

theorem search_drops_empty_field:
  "search edited_entries (kwargs1 @ (k, []) # kwargs2) = search edited_entries (kwargs1 @ kwargs2)
   \<and> search edited_entries [(''team'', [])] = search edited_entries []
   \<and> search edited_entries [] = Inr (sort_values edited_entries)"
proof -
  have "search edited_entries (kwargs1 @ (k, []) # kwargs2) = search edited_entries (kwargs1 @ kwargs2)"
    by (rule search_cong) (rule search_rules_drop_empty)
  moreover have "search edited_entries [(''team'', [])] = search edited_entries []"
    by (rule search_cong) (simp add: search_rules_def)
  moreover have "search edited_entries [] = Inr (sort_values edited_entries)"
    by (simp add: search_def search_rules_Nil bind_result_simps)
  ultimately show ?thesis by blast
qed


end
